theory Spec2Isabelle
  imports Main
begin

section \<open>JavaScript values carried by requests and by the catalog\<close>

text \<open>
  The server, an Express application, receives request bodies
  parsed by \<^verbatim>\<open>bodyParser.json()\<close> and reads the product catalog with
  \<^verbatim>\<open>JSON.parse\<close>. The attribute values it inspects are modelled as JSON scalars, plus
  \<open>JUndefined\<close> for the value of a property that is absent. Numbers are the
  integer-valued ones (a double holds them exactly below \<open>2 ^ 53\<close>); composite
  attribute values (arrays, nested objects) are outside the model.
\<close>

datatype jsval = JUndefined | JNull | JBool bool | JNum int | JStr string

text \<open>An object is its list of properties; the first binding of a key is the property.\<close>

type_synonym jsobj = "(string \<times> jsval) list"

definition get :: "jsobj \<Rightarrow> string \<Rightarrow> jsval" where
  \<comment> \<open>\<^verbatim>\<open>obj[key]\<close>: the value, or \<^verbatim>\<open>undefined\<close> when the property is absent\<close>
  "get obj k = (case map_of obj k of None \<Rightarrow> JUndefined | Some v \<Rightarrow> v)"

fun truthy :: "jsval \<Rightarrow> bool" where
  \<comment> \<open>JavaScript's ToBoolean, as used by \<^verbatim>\<open>!x\<close> and \<^verbatim>\<open>x || y\<close>\<close>
  "truthy JUndefined = False"
| "truthy JNull = False"
| "truthy (JBool b) = b"
| "truthy (JNum n) = (n \<noteq> 0)"
| "truthy (JStr s) = (s \<noteq> [])"

definition or_else :: "jsval \<Rightarrow> jsval \<Rightarrow> jsval" where
  \<comment> \<open>\<^verbatim>\<open>a || b\<close>\<close>
  "or_else a b = (if truthy a then a else b)"

fun dec_nat :: "nat \<Rightarrow> string" where
  "dec_nat n = (if n < 10 then [''0123456789'' ! n]
                else dec_nat (n div 10) @ [''0123456789'' ! (n mod 10)])"

declare dec_nat.simps [simp del]

definition dec_int :: "int \<Rightarrow> string" where
  "dec_int i = (if i < 0 then CHR ''-'' # dec_nat (nat (- i)) else dec_nat (nat i))"

fun ToString :: "jsval \<Rightarrow> string" where
  \<comment> \<open>the abstract operation ToString, as a template literal applies it\<close>
  "ToString JUndefined = ''undefined''"
| "ToString JNull = ''null''"
| "ToString (JBool b) = (if b then ''true'' else ''false'')"
| "ToString (JNum n) = dec_int n"
| "ToString (JStr s) = s"

datatype error =
    TypeError       \<comment> \<open>a property read or method call on \<^verbatim>\<open>undefined\<close> or \<^verbatim>\<open>null\<close>\<close>
  | FileMissing     \<comment> \<open>ENOENT from \<^verbatim>\<open>fs.access\<close>, \<^verbatim>\<open>fs.readFile\<close> or \<^verbatim>\<open>xlsx.readFile\<close>\<close>
  | NotAWorkbook    \<comment> \<open>\<^verbatim>\<open>xlsx.readFile\<close> could not parse the file\<close>
  | JsonSyntax      \<comment> \<open>\<^verbatim>\<open>JSON.parse\<close> rejected the text\<close>
  | WorksheetMissing \<comment> \<open>\<^verbatim>\<open>new Error("Worksheet missing")\<close>\<close>
  | WriteFailed     \<comment> \<open>\<^verbatim>\<open>xlsx.writeFile\<close> rejected\<close>
  | MailFailed      \<comment> \<open>\<^verbatim>\<open>transporter.sendMail\<close> rejected\<close>

definition toString_js :: "jsval \<Rightarrow> error + string" where
  \<comment> \<open>the method call \<^verbatim>\<open>v.toString()\<close>, which throws on \<^verbatim>\<open>undefined\<close> and \<^verbatim>\<open>null\<close>\<close>
  "toString_js v = (case v of JUndefined \<Rightarrow> Inl TypeError | JNull \<Rightarrow> Inl TypeError
                     | _ \<Rightarrow> Inr (ToString v))"

section \<open>The order store: a workbook file\<close>

text \<open>
  The ExcelJS library is used through five operations: reading a workbook file, looking a
  worksheet up by name, assigning a worksheet's \<^verbatim>\<open>columns\<close>, adding a row, and writing
  the workbook back. A worksheet is modelled by what these operations touch, from its first
  row on: the value of \<^verbatim>\<open>sheet.columns\<close>, which is \<^verbatim>\<open>null\<close> for a worksheet that has
  no column definitions; the labels in the cells of the first row, the header row, which
  may be empty; and the rows below it, where \<^verbatim>\<open>addRow\<close> appends.
\<close>

record column =
  header :: string
  key :: string
  width :: nat

record worksheet =
  columns :: "column list option"   \<comment> \<open>\<^verbatim>\<open>sheet.columns\<close>, \<open>None\<close> for \<^verbatim>\<open>null\<close>\<close>
  header_cells :: "string list"     \<comment> \<open>the labels in the first row, cell by cell\<close>
  rows :: "jsval list list"         \<comment> \<open>the rows below the first\<close>

type_synonym workbook = "(string \<times> worksheet) list"

datatype xfile = Unparseable | Xlsx workbook

definition getWorksheet :: "workbook \<Rightarrow> string \<Rightarrow> worksheet option" where
  "getWorksheet wb name = map_of wb name"

fun setWorksheet :: "workbook \<Rightarrow> string \<Rightarrow> worksheet \<Rightarrow> workbook" where
  \<comment> \<open>the workbook after the worksheet object of that name was mutated to \<open>sh\<close>;
      \<^verbatim>\<open>addWorksheet\<close> puts a worksheet that is not there yet at the end\<close>
  "setWorksheet [] name sh = [(name, sh)]"
| "setWorksheet ((n, s) # wb) name sh =
     (if n = name then (n, sh) # wb else (n, s) # setWorksheet wb name sh)"

definition new_worksheet :: worksheet where
  \<comment> \<open>what \<^verbatim>\<open>addWorksheet\<close> creates\<close>
  "new_worksheet = \<lparr>columns = None, header_cells = [], rows = []\<rparr>"

definition set_columns :: "worksheet \<Rightarrow> column list \<Rightarrow> worksheet" where
  \<comment> \<open>the assignment \<^verbatim>\<open>sheet.columns = defs\<close>: the definitions are replaced, and each
      definition's header is written into its cell of the first row; cells further right
      stay as they are\<close>
  "set_columns sheet defs =
     sheet\<lparr>columns := Some defs,
           header_cells := map header defs @ drop (length defs) (header_cells sheet)\<rparr>"

definition fixedColumns :: "column list" where
  "fixedColumns =
    [\<lparr>header = ''Name'', key = ''name'', width = 20\<rparr>,
     \<lparr>header = ''Phone'', key = ''phone'', width = 20\<rparr>,
     \<lparr>header = ''Perfume ID'', key = ''perfumeId'', width = 15\<rparr>,
     \<lparr>header = ''Perfume Name'', key = ''perfumeName'', width = 25\<rparr>,
     \<lparr>header = ''Quantity'', key = ''quantity'', width = 10\<rparr>,
     \<lparr>header = ''Delivery Address'', key = ''deliveryAddress'', width = 30\<rparr>,
     \<lparr>header = ''Date'', key = ''date'', width = 25\<rparr>]"

definition canonical_labels :: "string list" where
  "canonical_labels =
    [''Name'', ''Phone'', ''Perfume ID'', ''Perfume Name'', ''Quantity'',
     ''Delivery Address'', ''Date'']"

section \<open>The process environment and the world it acts on\<close>

datatype catalog_doc =
    NotJson                 \<comment> \<open>\<^verbatim>\<open>perfumes.json\<close> does not parse\<close>
  | NotAnArray              \<comment> \<open>it parses to a value without a \<^verbatim>\<open>find\<close> method\<close>
  | Entries "jsobj list"    \<comment> \<open>it parses to an array; an element that is not an object
                                 has no \<^verbatim>\<open>id\<close>, like the empty object\<close>

datatype log_line =
    ExcelValid | ExcelCreated | OrderSaved string | EmailSent | EmailFailed error
  | ErrorSavingOrder error | FileNotFound error | ErrorSendingExcel error | ExcelDownloaded

record world =
  orders_xlsx :: "xfile option"          \<comment> \<open>the file at \<^verbatim>\<open>excelPath\<close>, \<open>None\<close> when absent\<close>
  perfumes_json :: "catalog_doc option"  \<comment> \<open>the catalog file, \<open>None\<close> when absent\<close>
  outbox :: "(string \<times> string) list list" \<comment> \<open>notifications handed to the mail provider\<close>
  console :: "log_line list"

record env =
  ACCESS_KEY :: "string option"   \<comment> \<open>\<^verbatim>\<open>process.env.ACCESS_KEY\<close>\<close>
  transporter :: bool             \<comment> \<open>mail credentials were configured at startup\<close>
  now :: string                   \<comment> \<open>what \<^verbatim>\<open>new Date().toLocaleString()\<close> returns\<close>
  write_ok :: bool                \<comment> \<open>whether \<^verbatim>\<open>xlsx.writeFile\<close> succeeds\<close>
  mail_ok :: bool                 \<comment> \<open>whether \<^verbatim>\<open>sendMail\<close> succeeds\<close>

definition say :: "log_line \<Rightarrow> world \<Rightarrow> world" where
  "say l w = w\<lparr>console := console w @ [l]\<rparr>"

definition access :: "world \<Rightarrow> error + unit" where
  \<comment> \<open>\<^verbatim>\<open>fs.access(excelPath)\<close>\<close>
  "access w = (case orders_xlsx w of None \<Rightarrow> Inl FileMissing | Some _ \<Rightarrow> Inr ())"

definition readFile :: "world \<Rightarrow> error + workbook" where
  \<comment> \<open>\<^verbatim>\<open>workbook.xlsx.readFile(excelPath)\<close>\<close>
  "readFile w = (case orders_xlsx w of None \<Rightarrow> Inl FileMissing
                  | Some Unparseable \<Rightarrow> Inl NotAWorkbook
                  | Some (Xlsx wb) \<Rightarrow> Inr wb)"

definition writeFile :: "env \<Rightarrow> workbook \<Rightarrow> world \<Rightarrow> error + world" where
  \<comment> \<open>\<^verbatim>\<open>workbook.xlsx.writeFile(excelPath)\<close> replaces the whole file\<close>
  "writeFile e wb w = (if write_ok e then Inr (w\<lparr>orders_xlsx := Some (Xlsx wb)\<rparr>)
                       else Inl WriteFailed)"

section \<open>Startup: \<^verbatim>\<open>initializeExcel\<close>\<close>

definition open_orders :: "world \<Rightarrow> error + worksheet" where
  \<comment> \<open>the \<^verbatim>\<open>try\<close> block: access, read, look the worksheet up, throw when missing\<close>
  "open_orders w =
    (case access w of Inl e \<Rightarrow> Inl e
     | Inr _ \<Rightarrow>
        (case readFile w of Inl e \<Rightarrow> Inl e
         | Inr wb \<Rightarrow>
            (case getWorksheet wb ''Orders'' of None \<Rightarrow> Inl WorksheetMissing
             | Some sheet \<Rightarrow> Inr sheet)))"

definition fresh_workbook :: workbook where
  \<comment> \<open>a new workbook, one added worksheet "Orders", its columns assigned\<close>
  "fresh_workbook = setWorksheet [] ''Orders'' (set_columns new_worksheet fixedColumns)"

definition initializeExcel :: "env \<Rightarrow> world \<Rightarrow> error + world" where
  \<comment> \<open>\<open>Inl\<close>: the rejection of the \<^verbatim>\<open>catch\<close> block's write leaves the function\<close>
  "initializeExcel e w =
    (case open_orders w of
       Inr sheet \<Rightarrow> Inr (say ExcelValid w)
     | Inl _ \<Rightarrow>
        (case writeFile e fresh_workbook w of Inl err \<Rightarrow> Inl err
         | Inr w' \<Rightarrow> Inr (say ExcelCreated w')))"

section \<open>Placing an order: \<^verbatim>\<open>POST /order-perfume\<close>\<close>

text \<open>
  A response is either a JSON body with its status code (\<^verbatim>\<open>res.json\<close> alone answers
  200) or the transfer of a file started by \<^verbatim>\<open>res.download\<close>. Message texts are given
  without the pictographs the source puts in front of some of them.
\<close>

datatype response =
    Json nat bool string "jsobj option" "error option"
      \<comment> \<open>status, \<^verbatim>\<open>success\<close>, \<^verbatim>\<open>message\<close>, \<^verbatim>\<open>data\<close>, \<^verbatim>\<open>error\<close>\<close>
  | Download xfile string
      \<comment> \<open>the file's content and the name it is offered under\<close>

fun find_perfume :: "jsobj list \<Rightarrow> jsval \<Rightarrow> error + jsobj option" where
  \<comment> \<open>\<^verbatim>\<open>perfumes.find(p => p.id.toString() === perfumeId.toString())\<close>\<close>
  "find_perfume [] perfumeId = Inr None"
| "find_perfume (p # ps) perfumeId =
     (case toString_js (get p ''id'') of Inl err \<Rightarrow> Inl err
      | Inr a \<Rightarrow>
         (case toString_js perfumeId of Inl err \<Rightarrow> Inl err
          | Inr b \<Rightarrow> if a = b then Inr (Some p) else find_perfume ps perfumeId))"

definition load_perfumes :: "world \<Rightarrow> error + jsobj list" where
  \<comment> \<open>\<^verbatim>\<open>fs.readFile\<close>, \<^verbatim>\<open>JSON.parse\<close>, and the \<^verbatim>\<open>find\<close> method being there\<close>
  "load_perfumes w =
    (case perfumes_json w of None \<Rightarrow> Inl FileMissing
     | Some NotJson \<Rightarrow> Inl JsonSyntax
     | Some NotAnArray \<Rightarrow> Inl TypeError
     | Some (Entries perfumes) \<Rightarrow> Inr perfumes)"

definition orders_sheet :: "workbook \<Rightarrow> error + worksheet" where
  \<comment> \<open>the worksheet the row goes to, after the check of its columns;
      \<^verbatim>\<open>sheet.columns.length\<close> throws when \<^verbatim>\<open>sheet.columns\<close> is \<^verbatim>\<open>null\<close>\<close>
  "orders_sheet wb =
    (case getWorksheet wb ''Orders'' of
       None \<Rightarrow> Inr (set_columns new_worksheet fixedColumns)
     | Some sheet \<Rightarrow>
        (case columns sheet of
           None \<Rightarrow> Inl TypeError
         | Some cs \<Rightarrow>
            if length cs = 0 \<or> length cs \<noteq> length fixedColumns
            then Inr (set_columns sheet fixedColumns)
            else Inr sheet))"

definition orderData ::
  "jsval \<Rightarrow> jsval \<Rightarrow> jsval \<Rightarrow> jsval \<Rightarrow> jsval \<Rightarrow> jsobj \<Rightarrow> string \<Rightarrow> error + jsobj" where
  "orderData name phone perfumeId quantity deliveryAddress selectedPerfume date =
    (case toString_js perfumeId of Inl err \<Rightarrow> Inl err
     | Inr pid \<Rightarrow>
        (case toString_js quantity of Inl err \<Rightarrow> Inl err
         | Inr qty \<Rightarrow>
            Inr [(''name'', name),
                 (''phone'', phone),
                 (''perfumeId'', JStr pid),
                 (''perfumeName'', get selectedPerfume ''name''),
                 (''quantity'', JStr qty),
                 (''deliveryAddress'', deliveryAddress),
                 (''date'', JStr date)]))"

definition rowData :: "jsobj \<Rightarrow> jsval list" where
  \<comment> \<open>\<^verbatim>\<open>fixedColumns.forEach(col => rowData.push(orderData[col.key] || ""))\<close>\<close>
  "rowData od = map (\<lambda>col. or_else (get od (key col)) (JStr [])) fixedColumns"

definition addRow :: "worksheet \<Rightarrow> jsval list \<Rightarrow> worksheet" where
  "addRow sheet r = sheet\<lparr>rows := rows sheet @ [r]\<rparr>"

definition emailHtml :: "jsobj \<Rightarrow> (string \<times> string) list" where
  \<comment> \<open>one paragraph per entry of the order: its key and \<^verbatim>\<open>${value || 'N/A'}\<close>\<close>
  "emailHtml od = map (\<lambda>(k, v). (k, ToString (or_else v (JStr ''N/A'')))) od"

definition notify :: "env \<Rightarrow> jsobj \<Rightarrow> world \<Rightarrow> world" where
  \<comment> \<open>the inner \<^verbatim>\<open>try\<close>/\<^verbatim>\<open>catch\<close> around \<^verbatim>\<open>sendMail\<close>\<close>
  "notify e od w =
    (if transporter e then
       (if mail_ok e then say EmailSent (w\<lparr>outbox := outbox w @ [emailHtml od]\<rparr>)
        else say (EmailFailed MailFailed) w)
     else w)"

datatype saved =
    Thrown error            \<comment> \<open>an exception reached the outer \<^verbatim>\<open>catch\<close>\<close>
  | Returned response       \<comment> \<open>an early \<^verbatim>\<open>return res.status(...).json(...)\<close>\<close>
  | Saved jsobj world       \<comment> \<open>the file is written: the order, and the world then\<close>

definition required :: "string list" where
  "required = [''name'', ''phone'', ''perfumeId'', ''quantity'', ''deliveryAddress'']"

definition extraFields :: "jsobj \<Rightarrow> jsobj" where
  \<comment> \<open>the rest of the destructuring; the handler never reads it\<close>
  "extraFields body = filter (\<lambda>(k, v). k \<notin> set required) body"

definition save_order :: "env \<Rightarrow> jsobj \<Rightarrow> world \<Rightarrow> saved" where
  \<comment> \<open>the handler from the destructuring of the body to the "Order saved" line\<close>
  "save_order e body w =
    (let name = get body ''name'';
         phone = get body ''phone'';
         perfumeId = get body ''perfumeId'';
         quantity = get body ''quantity'';
         deliveryAddress = get body ''deliveryAddress''
     in
     if \<not> truthy name \<or> \<not> truthy phone \<or> \<not> truthy perfumeId \<or> \<not> truthy quantity
        \<or> \<not> truthy deliveryAddress
     then Returned (Json 400 False ''All fields are required.'' None None)
     else
       (case load_perfumes w of Inl err \<Rightarrow> Thrown err
        | Inr perfumes \<Rightarrow>
           (case find_perfume perfumes perfumeId of Inl err \<Rightarrow> Thrown err
            | Inr None \<Rightarrow> Returned (Json 404 False ''Perfume not found.'' None None)
            | Inr (Some selectedPerfume) \<Rightarrow>
               (case readFile w of Inl err \<Rightarrow> Thrown err
                | Inr wb \<Rightarrow>
                   (case orders_sheet wb of Inl err \<Rightarrow> Thrown err
                    | Inr sheet \<Rightarrow>
                       (case orderData name phone perfumeId quantity deliveryAddress
                               selectedPerfume (now e) of
                          Inl err \<Rightarrow> Thrown err
                        | Inr od \<Rightarrow>
                           (let sheet' = addRow sheet (rowData od) in
                            case writeFile e (setWorksheet wb ''Orders'' sheet') w of
                              Inl err \<Rightarrow> Thrown err
                            | Inr w' \<Rightarrow>
                               Saved od (say (OrderSaved (ToString name)) w'))))))))"

definition order_perfume :: "env \<Rightarrow> jsobj \<Rightarrow> world \<Rightarrow> response \<times> world" where
  "order_perfume e body w =
    (case save_order e body w of
       Returned r \<Rightarrow> (r, w)
     | Saved od w' \<Rightarrow> (Json 200 True ''Order saved successfully!'' (Some od) None, notify e od w')
     | Thrown err \<Rightarrow>
        (Json 500 False ''Error saving order.'' None (Some err), say (ErrorSavingOrder err) w))"

section \<open>Downloading the store: \<^verbatim>\<open>GET /orders\<close>\<close>

definition get_orders :: "env \<Rightarrow> string option \<Rightarrow> world \<Rightarrow> response \<times> world" where
  \<comment> \<open>\<open>accessKey\<close> is \<^verbatim>\<open>req.headers["x-access-key"]\<close>: \<open>None\<close> when the header is absent;
      \<^verbatim>\<open>fs.access\<close> throws exactly when the file is absent\<close>
  "get_orders e accessKey w =
    (if (case accessKey of None \<Rightarrow> True | Some k \<Rightarrow> k = []) \<or> accessKey \<noteq> ACCESS_KEY e
     then (Json 403 False ''Access denied.'' None None, w)
     else
       (case orders_xlsx w of
          Some file \<Rightarrow> (Download file ''orders.xlsx'', w)
        | None \<Rightarrow>
           (Json 404 False ''Excel file not found.'' None None, say (FileNotFound FileMissing) w)))"

definition download_callback :: "error option \<Rightarrow> bool \<Rightarrow> world \<Rightarrow> response option \<times> world" where
  \<comment> \<open>the callback of \<^verbatim>\<open>res.download\<close>, given the transfer's error and \<^verbatim>\<open>res.headersSent\<close>\<close>
  "download_callback err headersSent w =
    (case err of
       Some x \<Rightarrow>
        (if \<not> headersSent then Some (Json 500 False ''Error downloading file.'' None None)
         else None,
         say (ErrorSendingExcel x) w)
     | None \<Rightarrow> (None, say ExcelDownloaded w))"

section \<open>What a reader of the responses and of the store sees\<close>

fun status_of :: "response \<Rightarrow> nat" where
  "status_of (Json s _ _ _ _) = s"
| "status_of (Download _ _) = 200"

definition store_sheet :: "world \<Rightarrow> worksheet option" where
  \<comment> \<open>the worksheet "Orders" of the file on disk, when the file parses and has one\<close>
  "store_sheet w =
    (case orders_xlsx w of Some (Xlsx wb) \<Rightarrow> getWorksheet wb ''Orders'' | _ \<Rightarrow> None)"

definition store_headers :: "world \<Rightarrow> string list option" where
  \<comment> \<open>the labels of its header row\<close>
  "store_headers w = map_option header_cells (store_sheet w)"

definition store_rows :: "world \<Rightarrow> jsval list list" where
  "store_rows w = (case store_sheet w of None \<Rightarrow> [] | Some sh \<Rightarrow> rows sh)"

section \<open>Sample inputs\<close>

definition shop_env :: env where
  "shop_env = \<lparr>ACCESS_KEY = Some ''s3cret'', transporter = True,
     now = ''11/3/2026, 10:15:00 AM'', write_ok = True, mail_ok = False\<rparr>"

definition catalog :: "jsobj list" where
  "catalog = [[(''id'', JNum 2), (''name'', JStr ''Rose'')],
              [(''id'', JNum 7), (''name'', JStr ''Oud'')]]"

definition ana :: jsobj where
  \<comment> \<open>a complete order that also carries two fields the schema does not know\<close>
  "ana = [(''name'', JStr ''Ana''), (''phone'', JStr ''555''), (''perfumeId'', JStr ''2''),
          (''quantity'', JStr ''1''), (''deliveryAddress'', JStr ''Main St''),
          (''perfumeName'', JStr ''Fake''), (''coupon'', JStr ''X'')]"

definition shop :: world where
  "shop = \<lparr>orders_xlsx = Some (Xlsx fresh_workbook), perfumes_json = Some (Entries catalog),
     outbox = [], console = []\<rparr>"

definition relabelled :: "column list" where
  \<comment> \<open>seven columns, none with a canonical label\<close>
  "relabelled =
    [\<lparr>header = ''Customer'', key = ''name'', width = 20\<rparr>,
     \<lparr>header = ''Tel'', key = ''phone'', width = 20\<rparr>,
     \<lparr>header = ''SKU'', key = ''perfumeId'', width = 15\<rparr>,
     \<lparr>header = ''Product'', key = ''perfumeName'', width = 25\<rparr>,
     \<lparr>header = ''Qty'', key = ''quantity'', width = 10\<rparr>,
     \<lparr>header = ''Address'', key = ''deliveryAddress'', width = 30\<rparr>,
     \<lparr>header = ''When'', key = ''date'', width = 25\<rparr>]"


definition bare :: world where
  \<comment> \<open>the worksheet is there and has no column definitions: \<^verbatim>\<open>sheet.columns\<close> is \<^verbatim>\<open>null\<close>\<close>
  "bare = shop\<lparr>orders_xlsx := Some (Xlsx [(''Orders'',
       \<lparr>columns = None, header_cells = [], rows = []\<rparr>)])\<rparr>"





definition no_quantity :: jsobj where
  "no_quantity = [(''name'', JStr ''Ana''), (''phone'', JStr ''555''), (''perfumeId'', JStr ''2''),
          (''quantity'', JNum 0), (''deliveryAddress'', JStr ''Main St'')]"

definition other_sheet :: workbook where
  \<comment> \<open>a workbook that parses and has rows, in a worksheet of another name\<close>
  "other_sheet = [(''Sheet1'',
     \<lparr>columns = Some relabelled, header_cells = map header relabelled,
      rows = [[JStr ''old'']]\<rparr>)]"


definition ana_plain :: jsobj where
  "ana_plain = [(''name'', JStr ''Ana''), (''phone'', JStr ''555''), (''perfumeId'', JStr ''2''),
          (''quantity'', JStr ''1''), (''deliveryAddress'', JStr ''Main St'')]"


definition ana_order :: jsobj where
  "ana_order = [(''name'', JStr ''Ana''), (''phone'', JStr ''555''), (''perfumeId'', JStr ''2''),
      (''perfumeName'', JStr ''Rose''), (''quantity'', JStr ''1''),
      (''deliveryAddress'', JStr ''Main St''), (''date'', JStr ''11/3/2026, 10:15:00 AM'')]"

definition shop_after :: world where
  "shop_after = \<lparr>orders_xlsx = Some (Xlsx [(''Orders'', \<lparr>columns = Some fixedColumns,
        header_cells = canonical_labels,
        rows = [[JStr ''Ana'', JStr ''555'', JStr ''2'', JStr ''Rose'', JStr ''1'',
                 JStr ''Main St'', JStr ''11/3/2026, 10:15:00 AM'']]\<rparr>)]),
     perfumes_json = Some (Entries catalog), outbox = [], console = [OrderSaved ''Ana'']\<rparr>"

section \<open>Basic facts about the model\<close>

lemma getWorksheet_setWorksheet: "getWorksheet (setWorksheet wb n sh) n = Some sh"
  by (induction wb) (auto simp: getWorksheet_def)

lemma header_fixedColumns: "map header fixedColumns = canonical_labels"
  by (simp add: fixedColumns_def canonical_labels_def)

lemma length_fixedColumns: "length fixedColumns = 7"
  by (simp add: fixedColumns_def)

lemma falsy_iff: "(\<not> truthy v) = (v \<in> {JUndefined, JNull, JBool False, JNum 0, JStr []})"
  by (cases v) auto

lemma toString_js_truthy: "truthy v \<Longrightarrow> toString_js v = Inr (ToString v)"
  by (cases v) (auto simp: toString_js_def)

lemma all_required:
  "(\<forall>k\<in>set required. P k) =
     (P ''name'' \<and> P ''phone'' \<and> P ''perfumeId'' \<and> P ''quantity'' \<and> P ''deliveryAddress'')"
  by (simp add: required_def)

lemma save_order_400:
  "\<not> (\<forall>k\<in>set required. truthy (get body k)) \<Longrightarrow>
     save_order e body w = Returned (Json 400 False ''All fields are required.'' None None)"
  by (auto simp: save_order_def all_required Let_def)

lemma save_order_valid:
  assumes "\<forall>k\<in>set required. truthy (get body k)"
  shows "save_order e body w =
    (case load_perfumes w of Inl err \<Rightarrow> Thrown err
        | Inr perfumes \<Rightarrow>
           (case find_perfume perfumes (get body ''perfumeId'') of Inl err \<Rightarrow> Thrown err
            | Inr None \<Rightarrow> Returned (Json 404 False ''Perfume not found.'' None None)
            | Inr (Some selectedPerfume) \<Rightarrow>
               (case readFile w of Inl err \<Rightarrow> Thrown err
                | Inr wb \<Rightarrow>
                   (case orders_sheet wb of Inl err \<Rightarrow> Thrown err
                    | Inr sheet \<Rightarrow>
                    (case orderData (get body ''name'') (get body ''phone'') (get body ''perfumeId'')
                           (get body ''quantity'') (get body ''deliveryAddress'')
                           selectedPerfume (now e) of
                      Inl err \<Rightarrow> Thrown err
                    | Inr od \<Rightarrow>
                       (case writeFile e (setWorksheet wb ''Orders'' (addRow sheet (rowData od))) w of
                          Inl err \<Rightarrow> Thrown err
                        | Inr w' \<Rightarrow> Saved od (say (OrderSaved (ToString (get body ''name''))) w')))))))"
  using assms by (simp add: save_order_def all_required Let_def split: sum.splits option.splits)

lemma save_order_Saved:
  assumes "save_order e body w = Saved od w'"
  shows "(\<forall>k\<in>set required. truthy (get body k)) \<and>
    (\<exists>perfumes p wb sheet. load_perfumes w = Inr perfumes
       \<and> find_perfume perfumes (get body ''perfumeId'') = Inr (Some p)
       \<and> readFile w = Inr wb
       \<and> orders_sheet wb = Inr sheet
       \<and> orderData (get body ''name'') (get body ''phone'') (get body ''perfumeId'')
            (get body ''quantity'') (get body ''deliveryAddress'') p (now e) = Inr od
       \<and> write_ok e
       \<and> w' = say (OrderSaved (ToString (get body ''name'')))
                (w\<lparr>orders_xlsx := Some (Xlsx (setWorksheet wb ''Orders''
                      (addRow sheet (rowData od))))\<rparr>))"
proof -
  have v: "\<forall>k\<in>set required. truthy (get body k)"
    using assms save_order_400 [of body e w] by auto
  show ?thesis
    using assms v unfolding save_order_valid [OF v] writeFile_def
    by (auto split: sum.splits option.splits if_splits)
qed

lemma save_order_Returned:
  "save_order e body w = Returned r \<Longrightarrow>
     r = Json 400 False ''All fields are required.'' None None
   \<or> r = Json 404 False ''Perfume not found.'' None None"
  by (cases "\<forall>k\<in>set required. truthy (get body k)")
     (auto simp: save_order_valid save_order_400 split: sum.splits option.splits)

lemma order_perfume_200:
  "status_of (fst (order_perfume e body w)) = 200 \<Longrightarrow> \<exists>od w'. save_order e body w = Saved od w'"
  by (cases "save_order e body w") (auto simp: order_perfume_def dest: save_order_Returned)

lemma readFile_Inr: "readFile w = Inr wb \<Longrightarrow> orders_xlsx w = Some (Xlsx wb)"
  by (auto simp: readFile_def split: option.splits xfile.splits)

lemma store_notify [simp]: "orders_xlsx (notify e od w) = orders_xlsx w"
  by (simp add: notify_def say_def)

lemma store_say [simp]: "orders_xlsx (say l w) = orders_xlsx w"
  by (simp add: say_def)

lemma store_sheet_cong: "orders_xlsx w = orders_xlsx w' \<Longrightarrow> store_sheet w = store_sheet w'"
  by (simp add: store_sheet_def)

lemma rows_orders_sheet:
  "orders_sheet wb = Inr sheet \<Longrightarrow>
     rows sheet = (case getWorksheet wb ''Orders'' of None \<Rightarrow> [] | Some sh \<Rightarrow> rows sh)"
  by (auto simp: orders_sheet_def set_columns_def new_worksheet_def
        split: option.splits if_splits)

lemma save_order_store:
  assumes "save_order e body w = Saved od w'"
  shows "\<exists>wb sheet. orders_xlsx w = Some (Xlsx wb) \<and> orders_sheet wb = Inr sheet \<and>
           store_sheet w' = Some (addRow sheet (rowData od))"
  using save_order_Saved [OF assms]
  by (auto simp: store_sheet_def getWorksheet_setWorksheet dest: readFile_Inr)

lemma save_order_rows:
  assumes "save_order e body w = Saved od w'"
  shows "store_rows w' = store_rows w @ [rowData od]"
proof -
  from save_order_store [OF assms] obtain wb sheet where
    wb: "orders_xlsx w = Some (Xlsx wb)"
    and sh: "orders_sheet wb = Inr sheet"
    and st: "store_sheet w' = Some (addRow sheet (rowData od))"
    by blast
  have "store_rows w = rows sheet"
    using wb rows_orders_sheet [OF sh] by (simp add: store_rows_def store_sheet_def)
  then show ?thesis
    by (simp add: store_rows_def st addRow_def)
qed

lemma missing_required:
  "(\<exists>k\<in>set required. get body k \<in> {JUndefined, JNull, JBool False, JNum 0, JStr []})
     = (\<not> (\<forall>k\<in>set required. truthy (get body k)))"
  unfolding falsy_iff [symmetric] by blast

lemma save_order_Returned_valid:
  assumes "\<forall>k\<in>set required. truthy (get body k)" and "save_order e body w = Returned r"
  shows "r = Json 404 False ''Perfume not found.'' None None"
  using assms(2) unfolding save_order_valid [OF assms(1)]
  by (simp split: sum.splits option.splits)

lemma order_perfume_not_400:
  assumes "\<forall>k\<in>set required. truthy (get body k)"
  shows "status_of (fst (order_perfume e body w)) \<noteq> 400"
proof (cases "save_order e body w")
  case (Thrown err)
  then show ?thesis by (simp add: order_perfume_def)
next
  case (Returned r)
  with save_order_Returned_valid [OF assms Returned] show ?thesis
    by (simp add: order_perfume_def)
next
  case (Saved od w')
  then show ?thesis by (simp add: order_perfume_def)
qed


lemma truthy_defined: "truthy v \<Longrightarrow> v \<noteq> JUndefined \<and> v \<noteq> JNull"
  by (cases v) auto

lemma or_else_defined: "or_else v (JStr s) \<noteq> JUndefined \<and> or_else v (JStr s) \<noteq> JNull"
  by (cases v) (auto simp: or_else_def)

lemma or_else_truthy: "truthy v \<Longrightarrow> or_else v d = v"
  by (simp add: or_else_def)


lemma orderData_Inr:
  assumes "orderData n p i q d sp dt = Inr od" and "truthy i" and "truthy q"
  shows "od = [(''name'', n), (''phone'', p), (''perfumeId'', JStr (ToString i)),
               (''perfumeName'', get sp ''name''), (''quantity'', JStr (ToString q)),
               (''deliveryAddress'', d), (''date'', JStr dt)]"
  using assms by (auto simp: orderData_def toString_js_truthy)

lemma rowData_cells:
  "rowData [(''name'', n), (''phone'', p), (''perfumeId'', i), (''perfumeName'', pn),
            (''quantity'', q), (''deliveryAddress'', d), (''date'', dt)]
     = [or_else n (JStr []), or_else p (JStr []), or_else i (JStr []), or_else pn (JStr []),
        or_else q (JStr []), or_else d (JStr []), or_else dt (JStr [])]"
  by (simp add: rowData_def fixedColumns_def get_def)

lemma save_order_cong:
  assumes "\<forall>k\<in>set required. get body' k = get body k"
  shows "save_order e body' w = save_order e body w"
  using assms by (simp add: save_order_def all_required)

lemma writeFile_mail: "writeFile (e\<lparr>mail_ok := b\<rparr>) wb w = writeFile e wb w"
  by (simp add: writeFile_def)

lemma save_order_mail: "save_order (e\<lparr>mail_ok := b\<rparr>) body w = save_order e body w"
  by (simp add: save_order_def writeFile_mail Let_def
        cong: sum.case_cong option.case_cong if_cong)

lemma save_order_od:
  assumes "save_order e body w = Saved od w'"
  shows "\<exists>p perfumes. load_perfumes w = Inr perfumes
      \<and> find_perfume perfumes (get body ''perfumeId'') = Inr (Some p)
      \<and> od = [(''name'', get body ''name''), (''phone'', get body ''phone''),
              (''perfumeId'', JStr (ToString (get body ''perfumeId''))),
              (''perfumeName'', get p ''name''),
              (''quantity'', JStr (ToString (get body ''quantity''))),
              (''deliveryAddress'', get body ''deliveryAddress''), (''date'', JStr (now e))]"
proof -
  from save_order_Saved [OF assms] obtain perfumes p wb where
    v: "\<forall>k\<in>set required. truthy (get body k)"
    and l: "load_perfumes w = Inr perfumes"
    and f: "find_perfume perfumes (get body ''perfumeId'') = Inr (Some p)"
    and o: "orderData (get body ''name'') (get body ''phone'') (get body ''perfumeId'')
            (get body ''quantity'') (get body ''deliveryAddress'') p (now e) = Inr od"
    by blast
  from v have "truthy (get body ''perfumeId'')" "truthy (get body ''quantity'')"
    by (simp_all add: all_required)
  from orderData_Inr [OF o this] l f show ?thesis by blast
qed

lemma order_perfume_Saved:
  "save_order e body w = Saved od w' \<Longrightarrow>
     order_perfume e body w
       = (Json 200 True ''Order saved successfully!'' (Some od) None, notify e od w')"
  by (simp add: order_perfume_def)

lemma store_rows_cong: "orders_xlsx w = orders_xlsx w' \<Longrightarrow> store_rows w = store_rows w'"
  by (simp add: store_rows_def store_sheet_def)


lemma length_rowData: "length (rowData od) = 7"
  by (simp add: rowData_def length_fixedColumns)

section \<open>The column headers after an append\<close>




text \<open>
  A worksheet without column definitions never gets that far: the read of
  \<^verbatim>\<open>sheet.columns.length\<close> throws and the request ends in the outer \<^verbatim>\<open>catch\<close>.
\<close>

lemma order_perfume_null_columns:
  assumes "\<forall>k\<in>set required. truthy (get body k)"
    and "load_perfumes w = Inr perfumes"
    and "find_perfume perfumes (get body ''perfumeId'') = Inr (Some p)"
    and "orders_xlsx w = Some (Xlsx wb)"
    and "getWorksheet wb ''Orders'' = Some sh"
    and "columns sh = None"
  shows "order_perfume e body w
           = (Json 500 False ''Error saving order.'' None (Some TypeError),
              say (ErrorSavingOrder TypeError) w)"
  using assms(2-)
  by (simp add: order_perfume_def save_order_valid [OF assms(1)] readFile_def orders_sheet_def)

lemma order_perfume_null_columns_sample:
  "order_perfume shop_env ana bare
     = (Json 500 False ''Error saving order.'' None (Some TypeError),
        say (ErrorSavingOrder TypeError) bare)"
  by code_simp

section \<open>Rejecting an incomplete order\<close>

text \<open>
  Claim C3: the answer to \<^verbatim>\<open>POST /order-perfume\<close> is 400 exactly when one of name,
  phone, perfumeId, quantity, deliveryAddress is absent or falsy in the body (\<^verbatim>\<open>undefined\<close>,
  \<^verbatim>\<open>null\<close>, \<^verbatim>\<open>false\<close>, \<^verbatim>\<open>0\<close> or the empty string); the 400 answer carries
  \<^verbatim>\<open>success: false\<close> and leaves the world, the store file included, as it was; a quantity
  of \<^verbatim>\<open>0\<close> or \<^verbatim>\<open>""\<close> is rejected that way.
\<close>

theorem order_perfume_400_iff_field_missing:
  "(status_of (fst (order_perfume e body w)) = 400) =
     (\<exists>k\<in>set required. get body k \<in> {JUndefined, JNull, JBool False, JNum 0, JStr []})
   \<and> (status_of (fst (order_perfume e body w)) = 400 \<longrightarrow>
        order_perfume e body w = (Json 400 False ''All fields are required.'' None None, w))
   \<and> (get body ''quantity'' = JNum 0 \<or> get body ''quantity'' = JStr [] \<longrightarrow>
        order_perfume e body w = (Json 400 False ''All fields are required.'' None None, w))"
proof (cases "\<forall>k\<in>set required. truthy (get body k)")
  case True
  have q: "truthy (get body ''quantity'')"
    using True by (simp add: all_required)
  have "get body ''quantity'' \<noteq> JNum 0 \<and> get body ''quantity'' \<noteq> JStr []"
    using q by auto
  then show ?thesis
    unfolding missing_required
    using True order_perfume_not_400 [OF True, of e w] by simp
next
  case False
  then have r: "order_perfume e body w = (Json 400 False ''All fields are required.'' None None, w)"
    by (simp add: order_perfume_def save_order_400)
  show ?thesis
    unfolding missing_required r using False by simp
qed

theorem order_perfume_400_iff_field_missing_witness:
  "get no_quantity ''quantity'' = JNum 0 \<and>
   order_perfume shop_env no_quantity shop
     = (Json 400 False ''All fields are required.'' None None, shop)"
proof -
  have h: "get no_quantity ''quantity'' = JNum 0"
    by (simp add: no_quantity_def get_def)
  note imp = order_perfume_400_iff_field_missing
    [of shop_env no_quantity shop, THEN conjunct2, THEN conjunct2]
  show ?thesis
    using h imp by simp
qed

section \<open>The row that is appended\<close>

text \<open>
  Claim C2: whenever an order is stored (status 200), the store gains exactly one row, the
  projection of the order through the seven canonical columns in order; its cells are the
  five request fields (perfumeId and quantity as strings), the catalog name and the date; a
  canonical field whose value is missing or falsy is written as the empty string, so no cell
  is \<^verbatim>\<open>null\<close> or \<^verbatim>\<open>undefined\<close>; and a body that agrees on the five required fields
  gives the same result, whatever other fields either body carries.
\<close>

theorem order_row_is_projection:
  assumes "status_of (fst (order_perfume e body w)) = 200"
  shows "\<exists>od. fst (order_perfume e body w)
                = Json 200 True ''Order saved successfully!'' (Some od) None
     \<and> store_rows (snd (order_perfume e body w))
         = store_rows w @ [map (\<lambda>col. or_else (get od (key col)) (JStr [])) fixedColumns]
     \<and> map (\<lambda>col. or_else (get od (key col)) (JStr [])) fixedColumns
         = [get body ''name'', get body ''phone'', JStr (ToString (get body ''perfumeId'')),
            or_else (get od ''perfumeName'') (JStr []),
            JStr (ToString (get body ''quantity'')), get body ''deliveryAddress'',
            or_else (JStr (now e)) (JStr [])]
     \<and> (\<forall>col\<in>set fixedColumns. \<not> truthy (get od (key col)) \<longrightarrow>
            or_else (get od (key col)) (JStr []) = JStr [])
     \<and> (\<forall>v\<in>set (last (store_rows (snd (order_perfume e body w)))).
            v \<noteq> JNull \<and> v \<noteq> JUndefined)
     \<and> (\<forall>body'. (\<forall>k\<in>set required. get body' k = get body k) \<longrightarrow>
            order_perfume e body' w = order_perfume e body w)"
proof -
  from order_perfume_200 [OF assms] obtain od w' where s: "save_order e body w = Saved od w'"
    by blast
  note r = order_perfume_Saved [OF s]
  have rows: "store_rows (snd (order_perfume e body w)) = store_rows w @ [rowData od]"
    using save_order_rows [OF s] store_rows_cong [of "notify e od w'" w'] by (simp add: r)
  from save_order_Saved [OF s] have v: "\<forall>k\<in>set required. truthy (get body k)" by blast
  from save_order_od [OF s] obtain p where
    od: "od = [(''name'', get body ''name''), (''phone'', get body ''phone''),
              (''perfumeId'', JStr (ToString (get body ''perfumeId''))),
              (''perfumeName'', get p ''name''),
              (''quantity'', JStr (ToString (get body ''quantity''))),
              (''deliveryAddress'', get body ''deliveryAddress''), (''date'', JStr (now e))]"
    by blast
  have pn: "get od ''perfumeName'' = get p ''name''"
    by (simp add: od get_def)
  have cells: "rowData od
     = [get body ''name'', get body ''phone'', JStr (ToString (get body ''perfumeId'')),
        or_else (get od ''perfumeName'') (JStr []),
        JStr (ToString (get body ''quantity'')), get body ''deliveryAddress'',
        or_else (JStr (now e)) (JStr [])]"
  proof -
    have t: "truthy (get body ''name'')" "truthy (get body ''phone'')"
      "truthy (get body ''perfumeId'')" "truthy (get body ''quantity'')"
      "truthy (get body ''deliveryAddress'')"
      using v by (simp_all add: all_required)
    have "truthy (JStr (ToString (get body ''perfumeId'')))"
      using t(3) by (cases "get body ''perfumeId''") (auto simp: dec_int_def dec_nat.simps [of "nat _"])
    moreover have "truthy (JStr (ToString (get body ''quantity'')))"
      using t(4) by (cases "get body ''quantity''") (auto simp: dec_int_def dec_nat.simps [of "nat _"])
    ultimately show ?thesis
      unfolding pn unfolding od rowData_cells using t by (simp add: or_else_truthy)
  qed
  have nonnull: "\<forall>v\<in>set (rowData od). v \<noteq> JNull \<and> v \<noteq> JUndefined"
    by (auto simp: rowData_def or_else_defined)
  have indep: "\<forall>body'. (\<forall>k\<in>set required. get body' k = get body k) \<longrightarrow>
            order_perfume e body' w = order_perfume e body w"
  proof (intro allI impI)
    fix body' :: jsobj
    assume "\<forall>k\<in>set required. get body' k = get body k"
    then have "save_order e body' w = save_order e body w"
      by (rule save_order_cong)
    then show "order_perfume e body' w = order_perfume e body w"
      by (simp add: order_perfume_def)
  qed
  have fal: "\<forall>col\<in>set fixedColumns. \<not> truthy (get od (key col)) \<longrightarrow>
            or_else (get od (key col)) (JStr []) = JStr []"
    by (simp add: or_else_def)
  show ?thesis
    using rows cells nonnull indep fal unfolding rowData_def [symmetric] by (simp add: r)
qed

theorem order_row_is_projection_witness:
  "status_of (fst (order_perfume shop_env ana shop)) = 200
   \<and> store_rows (snd (order_perfume shop_env ana shop))
       = [[JStr ''Ana'', JStr ''555'', JStr ''2'', JStr ''Rose'', JStr ''1'', JStr ''Main St'',
           JStr ''11/3/2026, 10:15:00 AM'']]
   \<and> get ana ''coupon'' = JStr ''X'' \<and> get ana_plain ''coupon'' = JUndefined
   \<and> order_perfume shop_env ana_plain shop = order_perfume shop_env ana shop"
proof -
  have h: "status_of (fst (order_perfume shop_env ana shop)) = 200"
    by code_simp
  have k: "\<forall>k\<in>set required. get ana_plain k = get ana k"
    by (simp add: all_required ana_def ana_plain_def get_def)
  have rows: "store_rows (snd (order_perfume shop_env ana shop))
       = [[JStr ''Ana'', JStr ''555'', JStr ''2'', JStr ''Rose'', JStr ''1'', JStr ''Main St'',
           JStr ''11/3/2026, 10:15:00 AM'']]"
    by code_simp
  from order_row_is_projection [OF h] k
  have "order_perfume shop_env ana_plain shop = order_perfume shop_env ana shop"
    by blast
  moreover have "get ana ''coupon'' = JStr ''X''" "get ana_plain ''coupon'' = JUndefined"
    by (simp_all add: ana_def ana_plain_def get_def)
  ultimately show ?thesis using h rows by blast
qed

section \<open>Resolving the product\<close>




section \<open>A notification that fails\<close>

text \<open>
  Claim C5: once the row is appended and the file written, a rejected \<^verbatim>\<open>sendMail\<close>
  leaves the answer at 200 with \<^verbatim>\<open>success: true\<close> and the stored order as data, the
  same answer as with a mail that goes out; the file is the one that was written, the new
  row still its last; the failure only adds a console line.
\<close>

theorem notification_failure_isolated:
  assumes "save_order e body w = Saved od w1" and "\<not> mail_ok e"
  shows "order_perfume e body w
           = (Json 200 True ''Order saved successfully!'' (Some od) None,
              if transporter e then say (EmailFailed MailFailed) w1 else w1)
     \<and> fst (order_perfume (e\<lparr>mail_ok := True\<rparr>) body w) = fst (order_perfume e body w)
     \<and> orders_xlsx (snd (order_perfume e body w)) = orders_xlsx w1
     \<and> orders_xlsx (snd (order_perfume (e\<lparr>mail_ok := True\<rparr>) body w)) = orders_xlsx w1
     \<and> store_rows (snd (order_perfume e body w)) = store_rows w @ [rowData od]"
proof -
  note r = order_perfume_Saved [OF assms(1)]
  have s': "save_order (e\<lparr>mail_ok := True\<rparr>) body w = Saved od w1"
    by (simp add: save_order_mail assms(1))
  note r' = order_perfume_Saved [OF s']
  have n: "notify e od w1 = (if transporter e then say (EmailFailed MailFailed) w1 else w1)"
    using assms(2) by (simp add: notify_def)
  have rows: "store_rows (notify e od w1) = store_rows w @ [rowData od]"
    using save_order_rows [OF assms(1)] store_rows_cong [of "notify e od w1" w1] by simp
  show ?thesis
    unfolding r r' using n rows by simp
qed

theorem notification_failure_isolated_witness:
  "save_order shop_env ana shop = Saved ana_order shop_after
   \<and> \<not> mail_ok shop_env
   \<and> order_perfume shop_env ana shop
       = (Json 200 True ''Order saved successfully!'' (Some ana_order) None,
          say (EmailFailed MailFailed) shop_after)
   \<and> store_rows (say (EmailFailed MailFailed) shop_after) = store_rows shop @ [rowData ana_order]"
proof -
  have a: "save_order shop_env ana shop = Saved ana_order shop_after"
    by code_simp
  have b: "\<not> mail_ok shop_env"
    by (simp add: shop_env_def)
  have t: "transporter shop_env"
    by (simp add: shop_env_def)
  note th = notification_failure_isolated [OF a b]
  have c: "order_perfume shop_env ana shop
       = (Json 200 True ''Order saved successfully!'' (Some ana_order) None,
          say (EmailFailed MailFailed) shop_after)"
    using th t by simp
  have d: "store_rows (say (EmailFailed MailFailed) shop_after)
             = store_rows shop @ [rowData ana_order]"
    using th unfolding c by simp
  show ?thesis
    by (intro conjI) (rule a b c d)+
qed

section \<open>Two orders in a row\<close>

text \<open>
  Two orders stored one after the other, the second handled in the world the first one
  left: the store gains the two rows in request order, both of the canonical length, and
  the date cell of each is the clock reading its own request took.
\<close>

lemma two_orders_append_two_rows:
  assumes "save_order e1 body1 w = Saved od1 w1"
    and "save_order e2 body2 (notify e1 od1 w1) = Saved od2 w2"
  shows "store_rows (notify e2 od2 w2) = store_rows w @ [rowData od1, rowData od2]
     \<and> length (rowData od1) = length (rowData od2)
     \<and> rowData od1 ! 6 = or_else (JStr (now e1)) (JStr [])
     \<and> rowData od2 ! 6 = or_else (JStr (now e2)) (JStr [])"
proof -
  have 1: "store_rows (notify e1 od1 w1) = store_rows w @ [rowData od1]"
    using save_order_rows [OF assms(1)] store_rows_cong [of "notify e1 od1 w1" w1] by simp
  have 2: "store_rows (notify e2 od2 w2) = store_rows (notify e1 od1 w1) @ [rowData od2]"
    using save_order_rows [OF assms(2)] store_rows_cong [of "notify e2 od2 w2" w2] by simp
  from save_order_od [OF assms(1)] have d1: "rowData od1 ! 6 = or_else (JStr (now e1)) (JStr [])"
    by (auto simp: rowData_cells)
  from save_order_od [OF assms(2)] have d2: "rowData od2 ! 6 = or_else (JStr (now e2)) (JStr [])"
    by (auto simp: rowData_cells)
  show ?thesis
    using 1 2 d1 d2 by (simp add: length_rowData)
qed

section \<open>Startup repair of the store\<close>

text \<open>
  Claim C6: whenever the store file is missing, does not parse, or parses without a
  worksheet named "Orders", the initializer (its write succeeding) replaces the file by a
  workbook holding exactly one worksheet, "Orders", with the seven canonical columns and no
  data row.
\<close>

theorem initializeExcel_recreates:
  assumes "write_ok e"
    and "orders_xlsx w = None \<or> orders_xlsx w = Some Unparseable
         \<or> (\<exists>wb. orders_xlsx w = Some (Xlsx wb) \<and> getWorksheet wb ''Orders'' = None)"
  shows "\<exists>w'. initializeExcel e w = Inr w'
     \<and> orders_xlsx w' = Some (Xlsx [(''Orders'',
          \<lparr>columns = Some fixedColumns, header_cells = canonical_labels, rows = []\<rparr>)])
     \<and> store_headers w' = Some canonical_labels \<and> store_rows w' = []"
  using assms
  by (auto simp: initializeExcel_def open_orders_def access_def readFile_def writeFile_def
        fresh_workbook_def set_columns_def new_worksheet_def say_def store_headers_def
        store_rows_def store_sheet_def getWorksheet_def header_fixedColumns)

theorem initializeExcel_recreates_witness:
  "write_ok shop_env
   \<and> getWorksheet other_sheet ''Orders'' = None
   \<and> initializeExcel shop_env (shop\<lparr>orders_xlsx := Some (Xlsx other_sheet)\<rparr>)
       = Inr (say ExcelCreated (shop\<lparr>orders_xlsx := Some (Xlsx fresh_workbook)\<rparr>))
   \<and> (\<exists>w'. initializeExcel shop_env (shop\<lparr>orders_xlsx := None\<rparr>) = Inr w'
        \<and> store_headers w' = Some canonical_labels \<and> store_rows w' = [])
   \<and> (\<exists>w'. initializeExcel shop_env (shop\<lparr>orders_xlsx := Some Unparseable\<rparr>) = Inr w'
        \<and> store_headers w' = Some canonical_labels \<and> store_rows w' = [])"
proof -
  have a: "write_ok shop_env" by (simp add: shop_env_def)
  have b: "getWorksheet other_sheet ''Orders'' = None"
    by (simp add: other_sheet_def getWorksheet_def)
  have c: "initializeExcel shop_env (shop\<lparr>orders_xlsx := Some (Xlsx other_sheet)\<rparr>)
       = Inr (say ExcelCreated (shop\<lparr>orders_xlsx := Some (Xlsx fresh_workbook)\<rparr>))"
    using initializeExcel_recreates [OF a, of "shop\<lparr>orders_xlsx := Some (Xlsx other_sheet)\<rparr>"] b
    by (simp add: initializeExcel_def open_orders_def access_def readFile_def writeFile_def a)
  show ?thesis
    using a b c
      initializeExcel_recreates [OF a, of "shop\<lparr>orders_xlsx := None\<rparr>"]
      initializeExcel_recreates [OF a, of "shop\<lparr>orders_xlsx := Some Unparseable\<rparr>"]
    by auto
qed

text \<open>
  Claim C7: on a store that parses and has an "Orders" worksheet the initializer writes
  nothing: the world is the old one plus a console line, so both files are unchanged, a
  second run does the same again, and the rows of the store are those it had.
\<close>

theorem initializeExcel_valid_unchanged:
  assumes "orders_xlsx w = Some (Xlsx wb)" and "getWorksheet wb ''Orders'' = Some sh"
  shows "initializeExcel e1 w = Inr (say ExcelValid w)
     \<and> orders_xlsx (say ExcelValid w) = orders_xlsx w
     \<and> perfumes_json (say ExcelValid w) = perfumes_json w
     \<and> initializeExcel e2 (say ExcelValid w) = Inr (say ExcelValid (say ExcelValid w))
     \<and> orders_xlsx (say ExcelValid (say ExcelValid w)) = orders_xlsx w
     \<and> store_rows (say ExcelValid (say ExcelValid w)) = store_rows w"
  using assms
  by (simp add: initializeExcel_def open_orders_def access_def readFile_def say_def
        store_rows_def store_sheet_def)

theorem initializeExcel_valid_unchanged_witness:
  "orders_xlsx shop = Some (Xlsx fresh_workbook)
   \<and> getWorksheet fresh_workbook ''Orders''
       = Some \<lparr>columns = Some fixedColumns, header_cells = canonical_labels, rows = []\<rparr>
   \<and> initializeExcel shop_env shop = Inr (say ExcelValid shop)
   \<and> orders_xlsx (say ExcelValid shop) = orders_xlsx shop"
proof -
  have a: "orders_xlsx shop = Some (Xlsx fresh_workbook)" by (simp add: shop_def)
  have b: "getWorksheet fresh_workbook ''Orders''
       = Some \<lparr>columns = Some fixedColumns, header_cells = canonical_labels, rows = []\<rparr>"
    by (simp add: fresh_workbook_def getWorksheet_def set_columns_def new_worksheet_def
          header_fixedColumns)
  show ?thesis
    using a b initializeExcel_valid_unchanged [OF a b, of shop_env shop_env] by simp
qed

section \<open>The download endpoint\<close>

text \<open>
  Claim C9, as stated: a key that matches the configured secret gets the download (or 404
  when the file is absent). It fails when the secret is configured as the empty string and
  the header is sent empty: the two are equal, the file exists, and the answer is 403,
  because the handler first rejects every falsy header value.
\<close>

theorem get_orders_empty_key_counterexample:
  "Some [] = ACCESS_KEY (shop_env\<lparr>ACCESS_KEY := Some []\<rparr>) \<and>
   orders_xlsx shop = Some (Xlsx fresh_workbook) \<and>
   get_orders (shop_env\<lparr>ACCESS_KEY := Some []\<rparr>) (Some []) shop
     = (Json 403 False ''Access denied.'' None None, shop)"
  by (simp add: get_orders_def shop_def)

text \<open>
  Claim C9, amended: the answer to \<^verbatim>\<open>GET /orders\<close> is 403 with \<^verbatim>\<open>success: false\<close>
  and nothing of the store when the header is absent, empty, or different from the
  configured secret; when the header is non-empty and equal to the secret, the answer is
  404 if the store file is absent, and the download of that file as \<^verbatim>\<open>orders.xlsx\<close> if
  it exists.
\<close>

theorem get_orders_cases:
  "(accessKey = None \<or> accessKey = Some [] \<or> accessKey \<noteq> ACCESS_KEY e \<longrightarrow>
      get_orders e accessKey w = (Json 403 False ''Access denied.'' None None, w))
   \<and> (accessKey \<noteq> None \<and> accessKey \<noteq> Some [] \<and> accessKey = ACCESS_KEY e \<longrightarrow>
       (orders_xlsx w = None \<longrightarrow>
          fst (get_orders e accessKey w) = Json 404 False ''Excel file not found.'' None None
          \<and> orders_xlsx (snd (get_orders e accessKey w)) = None)
     \<and> (\<forall>file. orders_xlsx w = Some file \<longrightarrow>
          get_orders e accessKey w = (Download file ''orders.xlsx'', w)))"
  by (cases accessKey) (auto simp: get_orders_def say_def split: option.splits)

theorem get_orders_cases_witness:
  "get_orders shop_env (Some ''guess'') shop = (Json 403 False ''Access denied.'' None None, shop)
   \<and> fst (get_orders shop_env (Some ''s3cret'') (shop\<lparr>orders_xlsx := None\<rparr>))
        = Json 404 False ''Excel file not found.'' None None
   \<and> get_orders shop_env (Some ''s3cret'') shop
        = (Download (Xlsx fresh_workbook) ''orders.xlsx'', shop)"
proof -
  have k: "ACCESS_KEY shop_env = Some ''s3cret''" by (simp add: shop_env_def)
  have f: "orders_xlsx shop = Some (Xlsx fresh_workbook)" by (simp add: shop_def)
  show ?thesis
    using get_orders_cases [of "Some ''guess''" shop_env shop]
      get_orders_cases [of "Some ''s3cret''" shop_env "shop\<lparr>orders_xlsx := None\<rparr>"]
      get_orders_cases [of "Some ''s3cret''" shop_env shop] k f
    by simp
qed

text \<open>
  Claim C10: when \<^verbatim>\<open>ACCESS_KEY\<close> is not set, \<^verbatim>\<open>GET /orders\<close> answers 403 whatever the
  header holds, and touches nothing.
\<close>

theorem get_orders_unset_key_denies:
  assumes "ACCESS_KEY e = None"
  shows "get_orders e accessKey w = (Json 403 False ''Access denied.'' None None, w)"
  using assms by (cases accessKey) (auto simp: get_orders_def)

theorem get_orders_unset_key_denies_witness:
  "ACCESS_KEY (shop_env\<lparr>ACCESS_KEY := None\<rparr>) = None \<and>
   get_orders (shop_env\<lparr>ACCESS_KEY := None\<rparr>) (Some ''s3cret'') shop
     = (Json 403 False ''Access denied.'' None None, shop)"
proof -
  have h: "ACCESS_KEY (shop_env\<lparr>ACCESS_KEY := None\<rparr>) = None" by simp
  show ?thesis using h get_orders_unset_key_denies [OF h, of "Some ''s3cret''" shop] by simp
qed

end
